theory Spec2Isabelle
  imports Main "HOL-Library.Multiset"
begin

section \<open>The Todo entity and the table that stores it\<close>

text \<open>
  A row of the todos table, as the handlers and the tests read and write it:
  \<^verbatim>\<open>{ id: number, title: string, description: string | null, completed: boolean,
    created_at: Date, updated_at: Date }\<close>.
  The id is an integer, a \<^verbatim>\<open>Date\<close> is its number of milliseconds since the epoch, and
  a nullable column is an \<open>option\<close> with \<open>None\<close> for \<^verbatim>\<open>null\<close>. The field \<^verbatim>\<open>id\<close> is
  named \<open>todo_id\<close>, since \<open>id\<close> is the identity function of HOL.
\<close>

record Todo =
  todo_id :: int
  title :: string
  description :: "string option"
  completed :: bool
  created_at :: int
  updated_at :: int

text \<open>
  An optional property of a request object (\<^verbatim>\<open>title?: string\<close>): \<open>Undefined\<close> when the
  property is left out, \<open>Defined v\<close> when it is there. A property that is optional and
  nullable (\<^verbatim>\<open>description?: string | null\<close>) has three shapes: \<open>Undefined\<close>,
  \<open>Defined None\<close> for an explicit \<^verbatim>\<open>null\<close>, and \<open>Defined (Some s)\<close>.
\<close>

datatype 'a optional = Undefined | Defined 'a

text \<open>
  The request objects of the handlers. Their properties carry a prefix (\<open>create_\<close>,
  \<open>get_\<close>, \<open>upd_\<close>, \<open>del_\<close>), since the fields of all records share one name space.
\<close>

record CreateTodoInput =
  create_title :: string
  create_description :: "string option optional"

record GetTodoInput =
  get_id :: int

record UpdateTodoInput =
  upd_id :: int
  upd_title :: "string optional"
  upd_description :: "string option optional"
  upd_completed :: "bool optional"

record DeleteTodoInput =
  del_id :: int

text \<open>
  The store behind the \<^verbatim>\<open>db\<close> handle: the rows of the table in insertion order, and
  whether the driver can reach it. A statement executed on an unreachable store throws;
  the handlers log that exception and throw it again, so it is the error value of the
  model. A failed input validation is the other error a caller can see.
\<close>

record Store =
  rows :: "Todo list"
  online :: bool

datatype error = StoreFailure | ValidationFailure

section \<open>The statements the handlers execute\<close>

text \<open>
  \<^verbatim>\<open>db.select().from(todosTable).where(eq(todosTable.id, i)).execute()\<close>: the rows whose
  id is \<open>i\<close>, in table order.
\<close>

definition select_where_id :: "int \<Rightarrow> Store \<Rightarrow> error + Todo list" where
  "select_where_id i db =
     (if online db then Inr (filter (\<lambda>r. todo_id r = i) (rows db)) else Inl StoreFailure)"

text \<open>
  The object handed to \<^verbatim>\<open>.set(...)\<close>: a \<^verbatim>\<open>Partial\<close> of the four columns an update may
  write. A column is written exactly when its key is defined.
\<close>

record UpdateData =
  set_title :: "string optional"
  set_description :: "string option optional"
  set_completed :: "bool optional"
  set_updated_at :: "int optional"

definition apply_set :: "UpdateData \<Rightarrow> Todo \<Rightarrow> Todo" where
  "apply_set u r =
     r\<lparr> title := (case set_title u of Undefined \<Rightarrow> title r | Defined t \<Rightarrow> t),
        description := (case set_description u of Undefined \<Rightarrow> description r | Defined d \<Rightarrow> d),
        completed := (case set_completed u of Undefined \<Rightarrow> completed r | Defined c \<Rightarrow> c),
        updated_at := (case set_updated_at u of Undefined \<Rightarrow> updated_at r | Defined t \<Rightarrow> t) \<rparr>"

text \<open>
  \<^verbatim>\<open>db.update(todosTable).set(u).where(eq(todosTable.id, i)).returning().execute()\<close>:
  every row whose id is \<open>i\<close> gets the columns of \<open>u\<close>, the other rows stay as they are,
  and the statement returns the rows it has written, as they are after the write.
\<close>

definition update_where_id_returning ::
  "UpdateData \<Rightarrow> int \<Rightarrow> Store \<Rightarrow> (error + Todo list) \<times> Store" where
  "update_where_id_returning u i db =
     (if online db
      then (Inr (map (apply_set u) (filter (\<lambda>r. todo_id r = i) (rows db))),
            db\<lparr>rows := map (\<lambda>r. if todo_id r = i then apply_set u r else r) (rows db)\<rparr>)
      else (Inl StoreFailure, db))"

section \<open>The handlers\<close>

subsection \<open>createTodo\<close>

text \<open>
  \<^verbatim>\<open>input.description || null\<close>: the left operand when it is truthy, \<^verbatim>\<open>null\<close>
  otherwise. Of the values a description can take, \<^verbatim>\<open>undefined\<close>, \<^verbatim>\<open>null\<close> and the
  empty string are falsy.
\<close>

definition or_null :: "string option optional \<Rightarrow> string option" where
  "or_null d =
     (case d of
        Undefined \<Rightarrow> None
      | Defined None \<Rightarrow> None
      | Defined (Some s) \<Rightarrow> (if s = [] then None else Some s))"

text \<open>
  The handler as the source has it. Its comment calls it a placeholder declaration
  ("Real code should be implemented here. The goal of this handler is creating a new todo
  item and persisting it in the database"): it builds the record it returns, with the
  id 0, and executes no statement, so it takes no store and there is none to return. Its
  two calls of \<^verbatim>\<open>new Date()\<close> are two readings of the clock, \<open>t_created\<close> first and
  \<open>t_updated\<close> after it.
\<close>

definition createTodo :: "int \<Rightarrow> int \<Rightarrow> CreateTodoInput \<Rightarrow> Todo" where
  "createTodo t_created t_updated input =
     \<lparr> todo_id = 0,
       title = create_title input,
       description = or_null (create_description input),
       completed = False,
       created_at = t_created,
       updated_at = t_updated \<rparr>"

subsection \<open>getTodo\<close>

text \<open>
  The handler selects the rows with the id of the request and returns \<^verbatim>\<open>null\<close> when
  there is none, the first one otherwise. A failure of the statement is logged and thrown
  again.
\<close>

definition getTodo :: "GetTodoInput \<Rightarrow> Store \<Rightarrow> error + Todo option" where
  "getTodo input db =
     (case select_where_id (get_id input) db of
        Inl e \<Rightarrow> Inl e
      | Inr result \<Rightarrow> Inr (case result of [] \<Rightarrow> None | r # _ \<Rightarrow> Some r))"

subsection \<open>updateTodo\<close>

text \<open>
  The source file holds two declarations of updateTodo: a placeholder that returns
  \<^verbatim>\<open>null\<close> for every input, and after it the implementation, which is the one the
  update tests run and the one embedded here. Its update object starts with the clock
  reading \<open>now\<close> under \<^verbatim>\<open>updated_at\<close> and gets one more key for each property of the
  input that is not \<^verbatim>\<open>undefined\<close>. The statement runs inside \<^verbatim>\<open>try\<close>; the \<^verbatim>\<open>catch\<close>
  logs and throws again, so a failure of the statement is the failure of the handler.
\<close>

definition build_updateData :: "int \<Rightarrow> UpdateTodoInput \<Rightarrow> UpdateData" where
  "build_updateData now input =
     (let u0 = \<lparr> set_title = Undefined, set_description = Undefined,
                 set_completed = Undefined, set_updated_at = Defined now \<rparr>;
          u1 = (case upd_title input of Undefined \<Rightarrow> u0 | Defined t \<Rightarrow> u0\<lparr>set_title := Defined t\<rparr>);
          u2 = (case upd_description input of
                  Undefined \<Rightarrow> u1 | Defined d \<Rightarrow> u1\<lparr>set_description := Defined d\<rparr>);
          u3 = (case upd_completed input of
                  Undefined \<Rightarrow> u2 | Defined c \<Rightarrow> u2\<lparr>set_completed := Defined c\<rparr>)
      in u3)"

definition updateTodo :: "int \<Rightarrow> UpdateTodoInput \<Rightarrow> Store \<Rightarrow> (error + Todo option) \<times> Store" where
  "updateTodo now input db =
     (case update_where_id_returning (build_updateData now input) (upd_id input) db of
        (Inl e, db') \<Rightarrow> (Inl e, db')
      | (Inr result, db') \<Rightarrow> (Inr (case result of [] \<Rightarrow> None | r # _ \<Rightarrow> Some r), db'))"

section \<open>The parts of the service that are not among the sources\<close>

subsection \<open>The input schema and the procedure of create\<close>

text \<open>
  Modelled from the spec: a create request as it arrives at the remote-call layer, before
  validation (the spec's "empty/missing title on create"): the title may be missing.
\<close>

record CreateTodoRequest =
  req_title :: "string optional"
  req_description :: "string option optional"

text \<open>
  Modelled from the spec: the input schema of create (the module \<^verbatim>\<open>../schema\<close> that
  the handlers import their input types from is not among the sources). The spec has
  \<^verbatim>\<open>{title: string, description?: string|null}\<close> as the input of create, with "title
  must be non-empty (enforced before persistence)" and "validation failure: empty/missing
  title on create".
\<close>

definition createTodoInputSchema :: "CreateTodoRequest \<Rightarrow> error + CreateTodoInput" where
  "createTodoInputSchema req =
     (case req_title req of
        Undefined \<Rightarrow> Inl ValidationFailure
      | Defined t \<Rightarrow>
          if t = [] then Inl ValidationFailure
          else Inr \<lparr> create_title = t, create_description = req_description req \<rparr>)"

text \<open>
  Modelled from the spec: the create operation of the remote-call layer (the router that
  binds the schema to the handler is not among the sources). The spec has the control
  flow "request, validate, persist, respond": a request that fails validation never
  reaches the handler; one that passes is handed to createTodo, which is the handler of
  the sources and executes no statement on the store.
\<close>

definition create :: "int \<Rightarrow> int \<Rightarrow> CreateTodoRequest \<Rightarrow> Store \<Rightarrow> (error + Todo) \<times> Store" where
  "create t_created t_updated req db =
     (case createTodoInputSchema req of
        Inl e \<Rightarrow> (Inl e, db)
      | Inr input \<Rightarrow> (Inr (createTodo t_created t_updated input), db))"

subsection \<open>deleteTodo\<close>

text \<open>
  Modelled from the spec: the delete handler (\<^verbatim>\<open>../handlers/delete_todo\<close>, of which the
  sources hold the test only). The spec has "Delete(id): boolean success flag. True if a
  record existed and was removed; false if no matching record. Deleting one record must
  not affect any other record (point deletion, no cascade)", and a store failure is
  propagated as in the other handlers.
\<close>

definition deleteTodo :: "DeleteTodoInput \<Rightarrow> Store \<Rightarrow> (error + bool) \<times> Store" where
  "deleteTodo input db =
     (if online db
      then (Inr (filter (\<lambda>r. todo_id r = del_id input) (rows db) \<noteq> []),
            db\<lparr>rows := filter (\<lambda>r. todo_id r \<noteq> del_id input) (rows db)\<rparr>)
      else (Inl StoreFailure, db))"

subsection \<open>getTodos\<close>

text \<open>
  Modelled from the spec: the get-all handler (\<^verbatim>\<open>../handlers/get_todos\<close>, of which the
  sources hold the test only). The spec has "GetAll(): ordered sequence of Todo, newest
  first by created_at (ties broken by insertion order); empty sequence when store is
  empty. No side effects". The rows are in insertion order, and \<open>sort_key\<close> is the stable
  insertion sort of the library, here on the negated stamp: a later created_at comes
  first, and records with the same created_at keep the order they were inserted in.
\<close>

definition getTodos :: "Store \<Rightarrow> error + Todo list" where
  "getTodos db =
     (if online db then Inr (sort_key (\<lambda>r. - created_at r) (rows db)) else Inl StoreFailure)"

section \<open>Records used in the examples\<close>

text \<open>
  The row the update tests start from (\<^verbatim>\<open>createTestTodo\<close>), with id 1 and both stamps
  at millisecond 1000, a second row beside it, and the store that holds the two.
\<close>

definition original_todo :: Todo where
  "original_todo =
     \<lparr> todo_id = 1, title = ''Original Todo'', description = Some ''Original description'',
       completed = False, created_at = 1000, updated_at = 1000 \<rparr>"

definition other_todo :: Todo where
  "other_todo =
     \<lparr> todo_id = 2, title = ''No Description Todo'', description = None,
       completed = False, created_at = 1500, updated_at = 1500 \<rparr>"

definition two_todos :: Store where
  "two_todos = \<lparr> rows = [original_todo, other_todo], online = True \<rparr>"

text \<open>The test input \<^verbatim>\<open>basicInput\<close> of the create tests.\<close>

definition basicInput :: CreateTodoInput where
  "basicInput =
     \<lparr> create_title = ''Test Todo'', create_description = Defined (Some ''A todo for testing'') \<rparr>"

section \<open>What the update statement does to the table\<close>

lemma apply_set_build:
  "apply_set (build_updateData now input) r =
     r\<lparr> title := (case upd_title input of Undefined \<Rightarrow> title r | Defined t \<Rightarrow> t),
        description := (case upd_description input of Undefined \<Rightarrow> description r | Defined d \<Rightarrow> d),
        completed := (case upd_completed input of Undefined \<Rightarrow> completed r | Defined c \<Rightarrow> c),
        updated_at := now \<rparr>"
  by (simp add: apply_set_def build_updateData_def split: optional.split)

lemma map_unmatched: "\<forall>r\<in>set xs. todo_id r \<noteq> i \<Longrightarrow> map (\<lambda>r. if todo_id r = i then f r else r) xs = xs"
  by (induction xs) auto

lemma filter_unmatched: "\<forall>r\<in>set xs. todo_id r \<noteq> i \<Longrightarrow> filter (\<lambda>r. todo_id r = i) xs = []"
  by (induction xs) auto

lemma filter_the_row:
  "distinct (map todo_id xs) \<Longrightarrow> r \<in> set xs \<Longrightarrow> filter (\<lambda>x. todo_id x = todo_id r) xs = [r]"
proof (induction xs)
  case Nil
  then show ?case by simp
next
  case (Cons a xs)
  show ?case
  proof (cases "a = r")
    case True
    from Cons.prems have "\<forall>x\<in>set xs. todo_id x \<noteq> todo_id a" by (auto simp: image_iff)
    with True show ?thesis by (simp add: filter_unmatched)
  next
    case False
    with Cons.prems have "r \<in> set xs" and "todo_id a \<noteq> todo_id r" by force+
    with Cons show ?thesis by simp
  qed
qed

lemma map_the_row:
  "distinct (map todo_id xs) \<Longrightarrow> r \<in> set xs \<Longrightarrow>
   map (\<lambda>x. if todo_id x = todo_id r then f x else x) xs = map (\<lambda>x. if x = r then f r else x) xs"
proof (rule map_cong [OF refl])
  fix x
  assume d: "distinct (map todo_id xs)" and r: "r \<in> set xs" and x: "x \<in> set xs"
  from d have "inj_on todo_id (set xs)" by (simp add: distinct_map)
  with r x have "todo_id x = todo_id r \<longleftrightarrow> x = r" by (auto dest: inj_onD)
  then show "(if todo_id x = todo_id r then f x else x) = (if x = r then f r else x)" by auto
qed

text \<open>
  What updateTodo does to a table keyed by id when the request names a stored record,
  in one equation: the handler returns the record with the update object applied, and
  stores it in the place of the old one.
\<close>

lemma updateTodo_found:
  assumes "online db" and "distinct (map todo_id (rows db))"
    and "r \<in> set (rows db)" and "upd_id input = todo_id r"
  shows "updateTodo now input db =
     (Inr (Some (apply_set (build_updateData now input) r)),
      db\<lparr>rows := map (\<lambda>x. if x = r then apply_set (build_updateData now input) r else x) (rows db)\<rparr>)"
  using assms
  by (simp add: updateTodo_def update_where_id_returning_def filter_the_row map_the_row)

section \<open>Update\<close>

lemma two_todos_keyed: "distinct (map todo_id (rows two_todos))"
  by (simp add: two_todos_def original_todo_def other_todo_def)

text \<open>
  C1, as the code has it. For every record \<open>r\<close> of a reachable store keyed by id and
  every update request for its id, updateTodo returns a record \<open>r'\<close> and stores it in the
  place of \<open>r\<close>, all other rows untouched. A property of the request that is left
  undefined keeps the stored value; a defined one is written, and for the description a
  defined \<^verbatim>\<open>null\<close> writes "no description", which is a different request from leaving
  the property out. The id and created_at are those of \<open>r\<close>. The new updated_at is the
  clock reading of the call, whatever else the request holds: it is later than the
  stored stamp exactly when that reading is.
\<close>

theorem updateTodo_applies_present_fields:
  assumes "online db" and "distinct (map todo_id (rows db))"
    and "r \<in> set (rows db)" and "upd_id input = todo_id r"
  shows "\<exists>r'. updateTodo now input db =
            (Inr (Some r'), db\<lparr>rows := map (\<lambda>x. if x = r then r' else x) (rows db)\<rparr>)
          \<and> todo_id r' = todo_id r
          \<and> created_at r' = created_at r
          \<and> title r' = (case upd_title input of Undefined \<Rightarrow> title r | Defined t \<Rightarrow> t)
          \<and> description r' =
              (case upd_description input of Undefined \<Rightarrow> description r | Defined d \<Rightarrow> d)
          \<and> completed r' = (case upd_completed input of Undefined \<Rightarrow> completed r | Defined c \<Rightarrow> c)
          \<and> updated_at r' = now
          \<and> (updated_at r < updated_at r') = (updated_at r < now)"
proof -
  let ?r' = "apply_set (build_updateData now input) r"
  have "updateTodo now input db =
          (Inr (Some ?r'), db\<lparr>rows := map (\<lambda>x. if x = r then ?r' else x) (rows db)\<rparr>)"
    using assms by (rule updateTodo_found)
  moreover have "todo_id ?r' = todo_id r" "created_at ?r' = created_at r"
    "title ?r' = (case upd_title input of Undefined \<Rightarrow> title r | Defined t \<Rightarrow> t)"
    "description ?r' =
       (case upd_description input of Undefined \<Rightarrow> description r | Defined d \<Rightarrow> d)"
    "completed ?r' = (case upd_completed input of Undefined \<Rightarrow> completed r | Defined c \<Rightarrow> c)"
    "updated_at ?r' = now"
    by (simp_all add: apply_set_build)
  ultimately show ?thesis by auto
qed

text \<open>
  The update of the test "should update completed status", one second after the row was
  stamped: title and description stay, completed and updated_at are written.
\<close>

theorem updateTodo_applies_present_fields_witness:
  "\<exists>r'. updateTodo 2000 \<lparr>upd_id = 1, upd_title = Undefined, upd_description = Undefined,
            upd_completed = Defined True\<rparr> two_todos
          = (Inr (Some r'), two_todos\<lparr>rows := [r', other_todo]\<rparr>)
        \<and> title r' = ''Original Todo''
        \<and> description r' = Some ''Original description''
        \<and> completed r' = True
        \<and> created_at r' = 1000
        \<and> updated_at r' = 2000"
  using updateTodo_applies_present_fields
    [of two_todos original_todo
        "\<lparr>upd_id = 1, upd_title = Undefined, upd_description = Undefined,
          upd_completed = Defined True\<rparr>" 2000]
    two_todos_keyed
  by (simp add: two_todos_def original_todo_def other_todo_def) blast

text \<open>
  C1, as the claim states it, fails where the clock has not advanced since the record was
  stamped: the same update executed in millisecond 1000, the stamp the stored record
  already carries, succeeds and leaves updated_at at 1000, which is not strictly later.
\<close>

theorem updateTodo_same_millisecond_counterexample:
  "fst (updateTodo 1000 \<lparr>upd_id = 1, upd_title = Undefined, upd_description = Undefined,
          upd_completed = Defined True\<rparr> two_todos)
     = Inr (Some \<lparr> todo_id = 1, title = ''Original Todo'',
                   description = Some ''Original description'', completed = True,
                   created_at = 1000, updated_at = 1000 \<rparr>)
   \<and> updated_at original_todo = 1000
   \<and> \<not> updated_at original_todo < 1000"
  by (simp add: updateTodo_def update_where_id_returning_def build_updateData_def apply_set_def
      two_todos_def original_todo_def other_todo_def)

text \<open>
  C5. When no stored record has the id of the request, updateTodo on a reachable store
  returns the not-found value (\<^verbatim>\<open>null\<close>, here \<open>Inr None\<close>: a result, not an error) and
  the store after the call is the store before it.
\<close>

theorem updateTodo_not_found:
  assumes "online db" and "\<forall>r\<in>set (rows db). todo_id r \<noteq> upd_id input"
  shows "updateTodo now input db = (Inr None, db)"
  using assms
  by (simp add: updateTodo_def update_where_id_returning_def map_unmatched filter_unmatched)

theorem updateTodo_not_found_witness:
  "updateTodo 2000 \<lparr>upd_id = 99999, upd_title = Defined ''Should not work'',
       upd_description = Undefined, upd_completed = Undefined\<rparr>
     \<lparr>rows = [\<lparr>todo_id = 1, title = ''Original Todo'', description = Some ''Original description'',
               completed = False, created_at = 1000, updated_at = 1000\<rparr>], online = True\<rparr>
   = (Inr None,
      \<lparr>rows = [\<lparr>todo_id = 1, title = ''Original Todo'', description = Some ''Original description'',
               completed = False, created_at = 1000, updated_at = 1000\<rparr>], online = True\<rparr>)"
  by (rule updateTodo_not_found) simp_all

text \<open>
  C9. updateTodo has no check on the title: for every record of a reachable store keyed by
  id, a request for its id whose title is the empty string succeeds (the result is a
  record, not an error and not "not found"), and the record returned and stored in its
  place has the empty title.
\<close>

theorem updateTodo_accepts_empty_title:
  assumes "online db" and "distinct (map todo_id (rows db))"
    and "r \<in> set (rows db)" and "upd_id input = todo_id r"
    and "upd_title input = Defined []"
  shows "\<exists>r'. updateTodo now input db =
            (Inr (Some r'), db\<lparr>rows := map (\<lambda>x. if x = r then r' else x) (rows db)\<rparr>)
          \<and> title r' = []"
proof -
  let ?r' = "apply_set (build_updateData now input) r"
  have "updateTodo now input db =
          (Inr (Some ?r'), db\<lparr>rows := map (\<lambda>x. if x = r then ?r' else x) (rows db)\<rparr>)"
    using assms(1-4) by (rule updateTodo_found)
  moreover have "title ?r' = []"
    using assms(5) by (simp add: apply_set_build)
  ultimately show ?thesis by blast
qed

theorem updateTodo_accepts_empty_title_witness:
  "\<exists>r'. updateTodo 2000 \<lparr>upd_id = 1, upd_title = Defined [], upd_description = Undefined,
            upd_completed = Undefined\<rparr> two_todos
          = (Inr (Some r'), two_todos\<lparr>rows := [r', other_todo]\<rparr>)
        \<and> title r' = []"
  using updateTodo_accepts_empty_title
    [of two_todos original_todo
        "\<lparr>upd_id = 1, upd_title = Defined [], upd_description = Undefined,
          upd_completed = Undefined\<rparr>" 2000]
    two_todos_keyed
  by (simp add: two_todos_def original_todo_def other_todo_def)

section \<open>Create\<close>

lemma createTodo_id: "todo_id (createTodo t_created t_updated input) = 0"
  by (simp add: createTodo_def)

text \<open>
  The store assigns its ids from 1 on, so no stored record has the id 0 of the record
  createTodo returns: on every such store getTodo finds nothing under that id.
\<close>

lemma createTodo_not_persisted:
  assumes "online db" and "\<forall>r\<in>set (rows db). todo_id r \<noteq> 0"
  shows "getTodo \<lparr>get_id = todo_id (createTodo t_created t_updated input)\<rparr> db = Inr None"
  using assms by (simp add: createTodo_id getTodo_def select_where_id_def filter_unmatched)

text \<open>
  C2, evaluated on the code. createTodo returns a record with the id 0 and executes no
  statement, so the store after the call is the store before it. On the empty store of
  the tests, getTodo with the id of the created record finds no row and returns \<^verbatim>\<open>null\<close>:
  the record createTodo returned cannot be read back.
\<close>

theorem createTodo_then_getTodo_finds_nothing:
  "todo_id (createTodo 1000 1000 basicInput) = 0
   \<and> getTodo \<lparr>get_id = todo_id (createTodo 1000 1000 basicInput)\<rparr> \<lparr>rows = [], online = True\<rparr>
       = Inr None"
  by (simp add: createTodo_def getTodo_def select_where_id_def)




text \<open>
  C10. createTodo treats an empty-string description as it treats a missing or null one:
  the record it returns has no description (\<^verbatim>\<open>null\<close>), not the empty string.
\<close>

theorem createTodo_empty_description:
  "create_description input = Defined (Some []) \<Longrightarrow>
   description (createTodo t_created t_updated input) = None"
  by (simp add: createTodo_def or_null_def)

theorem createTodo_empty_description_witness:
  "description (createTodo 1000 1000 \<lparr>create_title = ''Test Todo'', create_description = Defined (Some [])\<rparr>)
   = None"
  by (rule createTodo_empty_description) simp

text \<open>
  C4. A create request whose title is missing or empty is rejected as a validation
  failure: the operation returns the error and no Todo, the handler is not reached, and
  the store after the call is the store before it.
\<close>

theorem create_rejects_empty_title:
  assumes "req_title req = Undefined \<or> req_title req = Defined []"
  shows "create t_created t_updated req db = (Inl ValidationFailure, db)"
  using assms by (auto simp: create_def createTodoInputSchema_def)

theorem create_rejects_empty_title_witness:
  "create 1000 1000 \<lparr>req_title = Defined [], req_description = Defined None\<rparr> two_todos
     = (Inl ValidationFailure, two_todos)
   \<and> create 1000 1000 \<lparr>req_title = Undefined, req_description = Undefined\<rparr> two_todos
     = (Inl ValidationFailure, two_todos)"
  using create_rejects_empty_title
    [of "\<lparr>req_title = Defined [], req_description = Defined None\<rparr>" 1000 1000 two_todos]
    create_rejects_empty_title
    [of "\<lparr>req_title = Undefined, req_description = Undefined\<rparr>" 1000 1000 two_todos]
  by simp

text \<open>
  The check is the schema's, not the handler's: called with an empty title, createTodo
  returns a record with the empty title.
\<close>

lemma createTodo_has_no_title_check:
  "title (createTodo t_created t_updated \<lparr>create_title = [], create_description = d\<rparr>) = []"
  by (simp add: createTodo_def)

section \<open>Delete\<close>

lemma filter_other_id:
  "j \<noteq> i \<Longrightarrow>
   filter (\<lambda>r. todo_id r = j) (filter (\<lambda>r. todo_id r \<noteq> i) xs) = filter (\<lambda>r. todo_id r = j) xs"
  by (induction xs) auto

lemma filter_same_id:
  "filter (\<lambda>r. todo_id r = i) (filter (\<lambda>r. todo_id r \<noteq> i) xs) = []"
  by (induction xs) auto

text \<open>
  C6. On a reachable store, deleteTodo returns true exactly when a record with the id
  existed, and false otherwise. After the call no record with that id is left (getTodo
  for the id returns \<^verbatim>\<open>null\<close>), the table holds the records with a different id, as
  they were and in the order they were, and getTodo returns for every other id what it
  returned before the call.
\<close>

theorem deleteTodo_point_deletion:
  assumes "online db"
  shows "fst (deleteTodo input db) = Inr (\<exists>r\<in>set (rows db). todo_id r = del_id input)
       \<and> rows (snd (deleteTodo input db)) = filter (\<lambda>r. todo_id r \<noteq> del_id input) (rows db)
       \<and> online (snd (deleteTodo input db))
       \<and> getTodo \<lparr>get_id = del_id input\<rparr> (snd (deleteTodo input db)) = Inr None
       \<and> (\<forall>j. j \<noteq> del_id input \<longrightarrow>
            getTodo \<lparr>get_id = j\<rparr> (snd (deleteTodo input db)) = getTodo \<lparr>get_id = j\<rparr> db)"
proof -
  have "fst (deleteTodo input db) = Inr (\<exists>r\<in>set (rows db). todo_id r = del_id input)"
    using assms by (simp add: deleteTodo_def filter_empty_conv)
  moreover have after: "snd (deleteTodo input db) =
      db\<lparr>rows := filter (\<lambda>r. todo_id r \<noteq> del_id input) (rows db)\<rparr>"
    using assms by (simp add: deleteTodo_def)
  moreover have "getTodo \<lparr>get_id = del_id input\<rparr> (snd (deleteTodo input db)) = Inr None"
    using assms
    by (simp add: after getTodo_def select_where_id_def filter_same_id del: filter_filter)
  moreover have "getTodo \<lparr>get_id = j\<rparr> (snd (deleteTodo input db)) = getTodo \<lparr>get_id = j\<rparr> db"
    if "j \<noteq> del_id input" for j
    using assms that
    by (simp add: after getTodo_def select_where_id_def filter_other_id del: filter_filter)
  ultimately show ?thesis using assms by simp
qed

text \<open>
  Deleting the first of the two example records returns true and leaves the second
  retrievable; deleting the id 999 of the tests, which no record has, returns false and
  leaves both.
\<close>

theorem deleteTodo_point_deletion_witness:
  "deleteTodo \<lparr>del_id = 1\<rparr> two_todos = (Inr True, two_todos\<lparr>rows := [other_todo]\<rparr>)
   \<and> getTodo \<lparr>get_id = 2\<rparr> (snd (deleteTodo \<lparr>del_id = 1\<rparr> two_todos)) = Inr (Some other_todo)
   \<and> getTodo \<lparr>get_id = 1\<rparr> (snd (deleteTodo \<lparr>del_id = 1\<rparr> two_todos)) = Inr None
   \<and> deleteTodo \<lparr>del_id = 999\<rparr> two_todos = (Inr False, two_todos)"
proof -
  have on: "online two_todos" by (simp add: two_todos_def)
  note d1 = deleteTodo_point_deletion [OF on, of "\<lparr>del_id = 1\<rparr>"]
  note d999 = deleteTodo_point_deletion [OF on, of "\<lparr>del_id = 999\<rparr>"]
  have a: "deleteTodo \<lparr>del_id = 1\<rparr> two_todos = (Inr True, two_todos\<lparr>rows := [other_todo]\<rparr>)"
    using d1 by (simp add: prod_eq_iff two_todos_def original_todo_def other_todo_def)
  have b: "getTodo \<lparr>get_id = 1\<rparr> (snd (deleteTodo \<lparr>del_id = 1\<rparr> two_todos)) = Inr None"
    using d1 by simp
  have c: "getTodo \<lparr>get_id = 2\<rparr> (snd (deleteTodo \<lparr>del_id = 1\<rparr> two_todos)) = Inr (Some other_todo)"
    using d1 by (simp add: getTodo_def select_where_id_def two_todos_def original_todo_def other_todo_def)
  have d: "deleteTodo \<lparr>del_id = 999\<rparr> two_todos = (Inr False, two_todos)"
    using d999 by (simp add: prod_eq_iff two_todos_def original_todo_def other_todo_def)
  from a b c d show ?thesis by simp
qed

section \<open>GetAll\<close>

text \<open>
  C7. On a reachable store, getTodos returns the empty list when the table is empty, and
  otherwise the stored records, each as often as it is stored, with a later created_at
  before an earlier one and the records of one created_at in the order of their
  insertion. getTodos returns a list and no store: it cannot write.
\<close>

theorem getTodos_newest_first:
  assumes "online db"
  shows "\<exists>ys. getTodos db = Inr ys
       \<and> (rows db = [] \<longrightarrow> ys = [])
       \<and> mset ys = mset (rows db)
       \<and> sorted_wrt (\<lambda>a b. created_at b \<le> created_at a) ys
       \<and> (\<forall>t. filter (\<lambda>r. created_at r = t) ys = filter (\<lambda>r. created_at r = t) (rows db))"
proof -
  let ?ys = "sort_key (\<lambda>r. - created_at r) (rows db)"
  have "getTodos db = Inr ?ys"
    using assms by (simp add: getTodos_def)
  moreover have "rows db = [] \<longrightarrow> ?ys = []" by simp
  moreover have "mset ?ys = mset (rows db)" by simp
  moreover have "sorted_wrt (\<lambda>a b. created_at b \<le> created_at a) ?ys"
  proof -
    have "sorted (map (\<lambda>r. - created_at r) ?ys)" by (rule sorted_sort_key)
    then show ?thesis by (simp add: sorted_map)
  qed
  moreover have "filter (\<lambda>r. created_at r = t) ?ys = filter (\<lambda>r. created_at r = t) (rows db)" for t
    using sort_key_stable [of "\<lambda>r. - created_at r" "- t" "rows db"] by simp
  ultimately show ?thesis by blast
qed

text \<open>
  The two example records come back newest first, and the empty store gives the empty
  list.
\<close>

theorem getTodos_newest_first_witness:
  "getTodos two_todos = Inr [other_todo, original_todo]
   \<and> getTodos \<lparr>rows = [], online = True\<rparr> = Inr []"
proof -
  have "getTodos two_todos = Inr [other_todo, original_todo]"
    by (simp add: getTodos_def two_todos_def original_todo_def other_todo_def)
  moreover have "getTodos \<lparr>rows = [], online = True\<rparr> = Inr []"
    using getTodos_newest_first [of "\<lparr>rows = [], online = True\<rparr>"] by auto
  ultimately show ?thesis by simp
qed

section \<open>The order of the two timestamps\<close>





end
